theory Spec2Isabelle
  imports Main
begin

section \<open>Strings and paths\<close>

text \<open>
  A Python \<^verbatim>\<open>str\<close> is modelled as a \<^typ>\<open>string\<close>; one \<^typ>\<open>char\<close> stands for one
  code point, so the model covers the code points U+0000 .. U+00FF. An exception is
  represented by its \<^verbatim>\<open>str(e)\<close>, the only thing the program ever reads from it.
\<close>

type_synonym path = string

text \<open>
  \<^verbatim>\<open>str.isspace\<close> on one code point below U+0100: TAB, LF, VT, FF, CR, the separators
  FS, GS, RS, US, SPACE, NEL (U+0085) and NBSP (U+00A0).
\<close>

definition py_isspace :: "char \<Rightarrow> bool" where
  "py_isspace c \<longleftrightarrow>
     c \<in> set [CHR 0x09, CHR 0x0A, CHR 0x0B, CHR 0x0C, CHR 0x0D,
               CHR 0x1C, CHR 0x1D, CHR 0x1E, CHR 0x1F, CHR 0x20, CHR 0x85, CHR 0xA0]"

definition py_lstrip :: "string \<Rightarrow> string" where
  "py_lstrip s = dropWhile py_isspace s"

definition py_rstrip :: "string \<Rightarrow> string" where
  "py_rstrip s = rev (dropWhile py_isspace (rev s))"

text \<open>\<^verbatim>\<open>s.strip()\<close> without arguments.\<close>

definition py_strip :: "string \<Rightarrow> string" where
  "py_strip s = py_rstrip (py_lstrip s)"

text \<open>\<^verbatim>\<open>s.rfind(c)\<close> for a one-character \<^verbatim>\<open>c\<close>: the highest index, or \<open>-1\<close>.\<close>

fun rfind :: "char \<Rightarrow> string \<Rightarrow> int" where
  "rfind c [] = - 1"
| "rfind c (x # xs) =
     (let r = rfind c xs in if 0 \<le> r then r + 1 else if x = c then 0 else - 1)"

text \<open>
  The POSIX flavour of \<^verbatim>\<open>os.path\<close>:
  \<^verbatim>\<open>basename(p) = p[p.rfind('/') + 1:]\<close>;
  \<^verbatim>\<open>dirname(p)\<close> is the part up to the last slash, with trailing slashes removed unless
  it consists of slashes only;
  \<^verbatim>\<open>splitext(p)\<close> splits at the last dot when that dot lies after the last slash and
  some character between the slash and the dot is not a dot;
  \<^verbatim>\<open>join(a, b)\<close> is \<^verbatim>\<open>b\<close> when \<^verbatim>\<open>b\<close> is absolute or \<^verbatim>\<open>a\<close> is empty, and otherwise
  \<^verbatim>\<open>a\<close> and \<^verbatim>\<open>b\<close> with exactly one slash supplied between them when \<^verbatim>\<open>a\<close> lacks it.
\<close>

definition basename :: "path \<Rightarrow> path" where
  "basename p = drop (nat (rfind CHR ''/'' p + 1)) p"

definition dirname :: "path \<Rightarrow> path" where
  "dirname p =
     (let head = take (nat (rfind CHR ''/'' p + 1)) p
      in if head \<noteq> [] \<and> head \<noteq> replicate (length head) CHR ''/''
         then rev (dropWhile (\<lambda>c. c = CHR ''/'') (rev head))
         else head)"

definition splitext :: "path \<Rightarrow> path \<times> string" where
  "splitext p =
     (let sepIndex = rfind CHR ''/'' p;
          dotIndex = rfind CHR ''.'' p
      in if dotIndex > sepIndex \<and>
            list_ex (\<lambda>c. c \<noteq> CHR ''.'')
              (take (nat (dotIndex - (sepIndex + 1))) (drop (nat (sepIndex + 1)) p))
         then (take (nat dotIndex) p, drop (nat dotIndex) p)
         else (p, []))"

definition path_join :: "path \<Rightarrow> path \<Rightarrow> path" where
  "path_join a b =
     (if (b \<noteq> [] \<and> hd b = CHR ''/'') \<or> a = [] then b
      else if last a = CHR ''/'' then a @ b
      else a @ ''/'' @ b)"

text \<open>\<^verbatim>\<open>str(n)\<close> for an integer: decimal digits, with a minus sign when negative.\<close>

fun str_nat :: "nat \<Rightarrow> string" where
  "str_nat n =
     (if n < 10 then [char_of (48 + n)]
      else str_nat (n div 10) @ [char_of (48 + n mod 10)])"

declare str_nat.simps [simp del]

definition py_str_int :: "int \<Rightarrow> string" where
  "py_str_int i = (if i < 0 then CHR ''-'' # str_nat (nat (- i)) else str_nat (nat i))"

text \<open>
  The dictionary returned by the model's \<^verbatim>\<open>transcribe\<close>, restricted to its string-valued
  entries, and \<^verbatim>\<open>d.get(k, default)\<close>.
\<close>

type_synonym result = "string \<rightharpoonup> string"

definition dict_get :: "result \<Rightarrow> string \<Rightarrow> string \<Rightarrow> string" where
  "dict_get d k dflt = (case d k of None \<Rightarrow> dflt | Some v \<Rightarrow> v)"

section \<open>The work queue\<close>

text \<open>
  \<^verbatim>\<open>queue.Queue\<close> of the standard library, as one thread sees it: the pending items in
  FIFO order and the counter \<^verbatim>\<open>unfinished_tasks\<close>. \<^verbatim>\<open>put\<close> appends and increments the
  counter, \<^verbatim>\<open>get\<close> removes the head and leaves the counter alone, \<^verbatim>\<open>task_done\<close>
  decrements the counter and raises \<^verbatim>\<open>ValueError\<close> instead when it is already zero,
  and \<^verbatim>\<open>join\<close> blocks exactly as long as the counter is not zero.
\<close>

record queue =
  items :: "path list"
  unfinished_tasks :: int

definition new_queue :: queue where
  "new_queue = \<lparr>items = [], unfinished_tasks = 0\<rparr>"

definition put :: "path \<Rightarrow> queue \<Rightarrow> queue" where
  "put p q = q\<lparr>items := items q @ [p], unfinished_tasks := unfinished_tasks q + 1\<rparr>"

text \<open>\<^verbatim>\<open>get(timeout=0.2)\<close>: \<open>None\<close> stands for \<^verbatim>\<open>queue.Empty\<close>.\<close>

definition get :: "queue \<Rightarrow> (path \<times> queue) option" where
  "get q = (case items q of [] \<Rightarrow> None | p # ps \<Rightarrow> Some (p, q\<lparr>items := ps\<rparr>))"

definition task_done :: "queue \<Rightarrow> string + queue" where
  "task_done q =
     (let unfinished = unfinished_tasks q - 1
      in if unfinished < 0 then Inl ''task_done() called too many times''
         else Inr (q\<lparr>unfinished_tasks := unfinished\<rparr>))"

text \<open>\<^verbatim>\<open>join()\<close> returns in exactly the states in which the counter is zero.\<close>

definition join_returns :: "queue \<Rightarrow> bool" where
  "join_returns q \<longleftrightarrow> unfinished_tasks q = 0"

section \<open>The background worker\<close>

type_synonym handle = nat

text \<open>
  What one iteration of the worker's loop sees of the outside world: the file system,
  the importable libraries, the process environment, the output-directory field of the
  window, the clock and the speech model. Each field is the outcome of the call named in
  its comment; \<open>Some e\<close> and \<open>Inl e\<close> are an exception with \<^verbatim>\<open>str(e) = e\<close>.
\<close>

record env =
  path_exists :: "path \<Rightarrow> bool"                        \<comment> \<open>\<^verbatim>\<open>os.path.exists\<close>\<close>
  import_error :: "string option"                      \<comment> \<open>\<^verbatim>\<open>import torch; import whisper\<close>\<close>
  cuda_available :: bool                               \<comment> \<open>\<^verbatim>\<open>torch.cuda.is_available()\<close>\<close>
  environ :: "string \<rightharpoonup> string"                       \<comment> \<open>\<^verbatim>\<open>os.environ\<close>\<close>
  load_model :: "string \<Rightarrow> string \<Rightarrow> string + handle"   \<comment> \<open>\<^verbatim>\<open>whisper.load_model(name, device)\<close>\<close>
  outdir_var :: string                                 \<comment> \<open>\<^verbatim>\<open>self.outdir_var.get()\<close>\<close>
  makedirs :: "path \<Rightarrow> string option"                  \<comment> \<open>\<^verbatim>\<open>os.makedirs(d, exist_ok=True)\<close>\<close>
  now_stamp :: string                                  \<comment> \<open>\<^verbatim>\<open>datetime.now().strftime(...)\<close>\<close>
  transcribe :: "handle \<Rightarrow> path \<Rightarrow> string + result"     \<comment> \<open>\<^verbatim>\<open>model.transcribe(path, ...)\<close>\<close>
  open_error :: "path \<Rightarrow> string option"                \<comment> \<open>\<^verbatim>\<open>open(p, "w", encoding="utf-8")\<close>\<close>
  write_error :: "path \<Rightarrow> string option"               \<comment> \<open>\<^verbatim>\<open>f.write(...)\<close>\<close>
  elapsed :: int                                       \<comment> \<open>\<^verbatim>\<open>int(time.time() - start)\<close>\<close>
  which :: "string \<Rightarrow> path option"                    \<comment> \<open>\<^verbatim>\<open>shutil.which\<close>\<close>

datatype status = Running | Finished | Crashed string

text \<open>
  The worker thread: its fields, the messages it has passed to \<^verbatim>\<open>on_update\<close> in emission
  order, and the files it has opened for writing with the text each one received.
  \<open>Finished\<close> is a return from \<^verbatim>\<open>run\<close>; \<open>Crashed e\<close> is \<^verbatim>\<open>run\<close> left by an exception
  that nothing caught, which ends the thread.
\<close>

record worker =
  in_q :: queue
  model_name_env :: string
  stop_set :: bool
  model :: "handle option"
  device :: string
  updates :: "string list"
  written :: "(path \<times> string) list"
  status :: status

definition on_update :: "worker \<Rightarrow> string \<Rightarrow> worker" where
  "on_update w msg = w\<lparr>updates := updates w @ [msg]\<rparr>"

definition new_worker :: "queue \<Rightarrow> worker" where
  "new_worker q =
     \<lparr>in_q = q, model_name_env = ''WHISPER_MODEL'', stop_set = False, model = None,
      device = ''cpu'', updates = [], written = [], status = Running\<rparr>"

definition stop :: "worker \<Rightarrow> worker" where
  "stop w = w\<lparr>stop_set := True\<rparr>"

text \<open>
  \<^verbatim>\<open>safe_stem\<close>, the same in both programs; the first argument is the value of
  \<^verbatim>\<open>datetime.now().strftime("%Y%m%d_%H%M%S")\<close> at the call.
\<close>

definition safe_stem :: "string \<Rightarrow> path \<Rightarrow> string" where
  "safe_stem now p =
     (let stem = fst (splitext (basename p));
          ts = now
      in stem @ ''_transcript_'' @ ts)"

text \<open>\<^verbatim>\<open>get_outdir\<close> as the window passes it: \<^verbatim>\<open>lambda: self.outdir_var.get().strip()\<close>.\<close>

definition get_outdir :: "env \<Rightarrow> string" where
  "get_outdir e = py_strip (outdir_var e)"

text \<open>
  \<^verbatim>\<open>_lazy_init\<close>: the new worker, and the exception that left the method if one did. The
  device is assigned and the loading message emitted before \<^verbatim>\<open>load_model\<close> is called.
\<close>

definition lazy_init :: "env \<Rightarrow> worker \<Rightarrow> worker \<times> string option" where
  "lazy_init e w =
     (case import_error e of
        Some x \<Rightarrow> (w, Some x)
      | None \<Rightarrow>
          (let dev = (if cuda_available e then ''cuda'' else ''cpu'');
               w1 = w\<lparr>device := dev\<rparr>;
               model_name = (case environ e (model_name_env w1) of
                               None \<Rightarrow> ''base'' | Some v \<Rightarrow> v);
               w2 = on_update w1
                      (''[Whisper] Loading model: '' @ model_name @ '' on '' @ dev @ '' ...'')
           in case load_model e model_name dev of
                Inl x \<Rightarrow> (w2, Some x)
              | Inr h \<Rightarrow> (w2\<lparr>model := Some h\<rparr>, None)))"

text \<open>
  How control leaves the \<^verbatim>\<open>try\<close> suite of the loop body: at its end, by the
  \<^verbatim>\<open>continue\<close> of the handler for a failed initialisation, or by an exception.
\<close>

datatype flow = Completed | Continued | Raised string

definition missing_dependencies :: string where
  "missing_dependencies =
     ''[Error] Missing dependencies.'' @ [CHR 0x0A] @
     ''Install with: pip install -U openai-whisper torch tkinterdnd2''"

text \<open>\<^verbatim>\<open>str(e)\<close> of the \<^verbatim>\<open>AttributeError\<close> of \<^verbatim>\<open>None.transcribe\<close>.\<close>

definition no_transcribe_attribute :: string where
  "no_transcribe_attribute =
     [CHR 0x27] @ ''NoneType'' @ [CHR 0x27] @ '' object has no attribute '' @
     [CHR 0x27] @ ''transcribe'' @ [CHR 0x27]"

text \<open>
  The statements of the \<^verbatim>\<open>try\<close> suite after the initialisation. The call of
  \<^verbatim>\<open>media_duration_seconds\<close> is left out: it catches every exception itself and its
  value is stored in a local that is never read.
\<close>

definition transcribe_item :: "env \<Rightarrow> path \<Rightarrow> worker \<Rightarrow> worker \<times> flow" where
  "transcribe_item e p w =
     (let outdir = (if get_outdir e \<noteq> [] then get_outdir e else dirname p)
      in case makedirs e outdir of
           Some x \<Rightarrow> (w, Raised x)
         | None \<Rightarrow>
             (let base_out = path_join outdir (safe_stem (now_stamp e) p);
                  w1 = on_update w (''[Transcribing] '' @ basename p)
              in case model w1 of
                   None \<Rightarrow> (w1, Raised no_transcribe_attribute)
                 | Some h \<Rightarrow>
                     (case transcribe e h p of
                        Inl x \<Rightarrow> (w1, Raised x)
                      | Inr res \<Rightarrow>
                          (let txt_path = base_out @ ''.txt''
                           in case open_error e txt_path of
                                Some x \<Rightarrow> (w1, Raised x)
                              | None \<Rightarrow>
                                  (case write_error e txt_path of
                                     Some x \<Rightarrow>
                                       (w1\<lparr>written := written w1 @ [(txt_path, [])]\<rparr>, Raised x)
                                   | None \<Rightarrow>
                                       (let w2 = w1\<lparr>written := written w1 @
                                                   [(txt_path,
                                                     py_strip (dict_get res ''text'' []) @ [CHR 0x0A])]\<rparr>;
                                            w3 = on_update w2
                                                   (''[Done] -> '' @ txt_path @ ''  ('' @
                                                    py_str_int (elapsed e) @ ''s)'')
                                        in (w3, Completed)))))))"

text \<open>
  The whole \<^verbatim>\<open>try\<close> suite. The handler for a failed initialisation emits two messages,
  calls \<^verbatim>\<open>task_done\<close> and continues; a \<^verbatim>\<open>ValueError\<close> from that call leaves the handler
  as an exception of the suite.
\<close>

definition try_suite :: "env \<Rightarrow> path \<Rightarrow> worker \<Rightarrow> worker \<times> flow" where
  "try_suite e p w =
     (case (if model w = None then lazy_init e w else (w, None)) of
        (w1, Some x) \<Rightarrow>
          (let w2 = on_update w1 missing_dependencies;
               w3 = on_update w2 x
           in case task_done (in_q w3) of
                Inl v \<Rightarrow> (w3, Raised v)
              | Inr q \<Rightarrow> (w3\<lparr>in_q := q\<rparr>, Continued))
      | (w1, None) \<Rightarrow> transcribe_item e p w1)"

text \<open>
  \<^verbatim>\<open>task_done\<close> called where no handler encloses it (after the skip message, and in the
  \<^verbatim>\<open>finally\<close> clause): its \<^verbatim>\<open>ValueError\<close> leaves \<^verbatim>\<open>run\<close>.
\<close>

definition task_done_uncaught :: "worker \<Rightarrow> worker" where
  "task_done_uncaught w =
     (case task_done (in_q w) of
        Inl v \<Rightarrow> w\<lparr>status := Crashed v\<rparr>
      | Inr q \<Rightarrow> w\<lparr>in_q := q\<rparr>)"

text \<open>\<^verbatim>\<open>ensure_ffmpeg\<close> of the window program: the \<^verbatim>\<open>RuntimeError\<close> it raises, if any.\<close>

definition ensure_ffmpeg :: "env \<Rightarrow> string option" where
  "ensure_ffmpeg e =
     (if which e ''ffmpeg'' = None \<or> which e ''ffprobe'' = None
      then Some (''FFmpeg/FFprobe not found.'' @ [CHR 0x0A, CHR 0x0A] @
                 ''Install FFmpeg and add its 'bin' to PATH so 'ffmpeg' and 'ffprobe' work.'')
      else None)"

text \<open>The statements of \<^verbatim>\<open>run\<close> before the loop.\<close>

definition run_start :: "env \<Rightarrow> worker \<Rightarrow> worker" where
  "run_start e w =
     (case ensure_ffmpeg e of
        Some x \<Rightarrow> (on_update w (''[Error] '' @ x))\<lparr>status := Finished\<rparr>
      | None \<Rightarrow> w)"

text \<open>
  One iteration of \<^verbatim>\<open>while not self._stop.is_set()\<close>. The \<^verbatim>\<open>finally\<close> clause runs on
  every way out of the \<^verbatim>\<open>try\<close> statement, the \<^verbatim>\<open>continue\<close> included.
\<close>

definition worker_iter :: "env \<Rightarrow> worker \<Rightarrow> worker" where
  "worker_iter e w =
     (if stop_set w then w\<lparr>status := Finished\<rparr>
      else case get (in_q w) of
             None \<Rightarrow> w
           | Some (p, q) \<Rightarrow>
               (let w0 = w\<lparr>in_q := q\<rparr>
                in if \<not> path_exists e p
                   then task_done_uncaught (on_update w0 (''[Skip] Not found: '' @ p))
                   else (case try_suite e p w0 of
                           (w1, fl) \<Rightarrow>
                             task_done_uncaught
                               (case fl of
                                  Raised x \<Rightarrow> on_update w1 (''[Error] '' @ x)
                                | _ \<Rightarrow> w1))))"

text \<open>
  The loop, one element of the list per iteration: the list is the outside world as the
  successive iterations find it. The loop itself never ends while the thread runs and
  no stop is requested.
\<close>

fun worker_run :: "env list \<Rightarrow> worker \<Rightarrow> worker" where
  "worker_run [] w = w"
| "worker_run (e # es) w =
     (if status w = Running then worker_run es (worker_iter e w) else w)"

text \<open>
  \<^verbatim>\<open>run\<close>: the check for FFmpeg in the world found at the start of the thread, then
  the loop.
\<close>

definition run :: "env \<Rightarrow> env list \<Rightarrow> worker \<Rightarrow> worker" where
  "run e0 es w = worker_run es (run_start e0 w)"

text \<open>The queue effect of \<^verbatim>\<open>start_transcribe\<close>: every listed path is put, in list order.\<close>

definition start_transcribe :: "path list \<Rightarrow> worker \<Rightarrow> worker" where
  "start_transcribe ps w = w\<lparr>in_q := fold put ps (in_q w)\<rparr>"


section \<open>Dropped files\<close>

text \<open>
  The loop of \<^verbatim>\<open>_split_dnd_paths\<close> over the characters of the data, with its three
  locals \<^verbatim>\<open>out\<close>, \<^verbatim>\<open>buf\<close> and \<^verbatim>\<open>in_brace\<close>, and the statement after the loop.
\<close>

fun split_loop :: "string \<Rightarrow> string list \<Rightarrow> string \<Rightarrow> bool \<Rightarrow> string list" where
  "split_loop [] out buf in_brace = (if buf \<noteq> [] then out @ [buf] else out)"
| "split_loop (ch # data) out buf in_brace =
     (if ch = CHR ''{'' then split_loop data out [] True
      else if ch = CHR ''}'' then split_loop data (out @ [buf]) [] False
      else if ch = CHR '' '' \<and> \<not> in_brace then
        (if buf \<noteq> [] then split_loop data (out @ [buf]) [] in_brace
         else split_loop data out buf in_brace)
      else split_loop data out (buf @ [ch]) in_brace)"

definition split_dnd_paths :: "string \<Rightarrow> path list" where
  "split_dnd_paths data =
     map py_strip (filter (\<lambda>p. py_strip p \<noteq> []) (split_loop data [] [] False))"

text \<open>
  \<^verbatim>\<open>_add_path\<close> and \<^verbatim>\<open>on_drop\<close> on the list of inputs shown in the window; the first
  argument is \<^verbatim>\<open>os.path.isfile\<close>.
\<close>

definition add_path :: "(path \<Rightarrow> bool) \<Rightarrow> path \<Rightarrow> path list \<Rightarrow> path list" where
  "add_path isfile p input_list = (if isfile p then input_list @ [p] else input_list)"

definition on_drop :: "(path \<Rightarrow> bool) \<Rightarrow> string \<Rightarrow> path list \<Rightarrow> path list" where
  "on_drop isfile raw input_list = fold (add_path isfile) (split_dnd_paths raw) input_list"

text \<open>
  The format the drop source delivers, for comparison with the splitter: a list of
  items, each a bare path or a path wrapped in braces, written one after the other with
  a single space between neighbours. An empty bare item stands for nothing between two
  spaces, so runs of spaces and spaces at either end are items lists too.
\<close>

datatype dnd_item = Bare string | Braced string

fun item_path :: "dnd_item \<Rightarrow> string" where
  "item_path (Bare s) = s"
| "item_path (Braced s) = s"

fun item_text :: "dnd_item \<Rightarrow> string" where
  "item_text (Bare s) = s"
| "item_text (Braced s) = ''{'' @ s @ ''}''"

fun dnd_data :: "dnd_item list \<Rightarrow> string" where
  "dnd_data [] = []"
| "dnd_data [x] = item_text x"
| "dnd_data (x # y # ys) = item_text x @ '' '' @ dnd_data (y # ys)"

text \<open>
  A bare path holds no space and no brace; a wrapped path holds no brace.
\<close>

fun item_ok :: "dnd_item \<Rightarrow> bool" where
  "item_ok (Bare s) = list_all (\<lambda>c. c \<noteq> CHR '' '' \<and> c \<noteq> CHR ''{'' \<and> c \<noteq> CHR ''}'') s"
| "item_ok (Braced s) = list_all (\<lambda>c. c \<noteq> CHR ''{'' \<and> c \<noteq> CHR ''}'') s"

text \<open>What the loop appends to \<^verbatim>\<open>out\<close> for one item: nothing for an empty bare path.\<close>

fun item_buffers :: "dnd_item \<Rightarrow> string list" where
  "item_buffers (Bare s) = (if s \<noteq> [] then [s] else [])"
| "item_buffers (Braced s) = [s]"

text \<open>
  The splitter as the specification words it, a whitespace-delimited list: the loop
  above with every whitespace character outside braces as a separator.
\<close>

fun spec_split_loop :: "string \<Rightarrow> string list \<Rightarrow> string \<Rightarrow> bool \<Rightarrow> string list" where
  "spec_split_loop [] out buf in_brace = (if buf \<noteq> [] then out @ [buf] else out)"
| "spec_split_loop (ch # data) out buf in_brace =
     (if ch = CHR ''{'' then spec_split_loop data out [] True
      else if ch = CHR ''}'' then spec_split_loop data (out @ [buf]) [] False
      else if py_isspace ch \<and> \<not> in_brace then
        (if buf \<noteq> [] then spec_split_loop data (out @ [buf]) [] in_brace
         else spec_split_loop data out buf in_brace)
      else spec_split_loop data out (buf @ [ch]) in_brace)"

definition spec_whitespace_delimited_paths :: "string \<Rightarrow> path list" where
  "spec_whitespace_delimited_paths data =
     map py_strip (filter (\<lambda>p. py_strip p \<noteq> []) (spec_split_loop data [] [] False))"

section \<open>The command-line script\<close>

text \<open>
  The outside world of one run of \<^verbatim>\<open>transcribe.py\<close>. \<open>askdirectory\<close> is the whole
  \<^verbatim>\<open>try\<close> suite of \<^verbatim>\<open>pick_output_dir\<close>: the folder the dialog returns for the given
  initial directory (empty when cancelled), or the exception of the import, the window
  or the dialog.
\<close>

record cli_env =
  argv :: "string list"                                \<comment> \<open>\<^verbatim>\<open>sys.argv\<close>\<close>
  abspath :: "path \<Rightarrow> path"                            \<comment> \<open>\<^verbatim>\<open>os.path.abspath\<close>\<close>
  cli_exists :: "path \<Rightarrow> bool"                         \<comment> \<open>\<^verbatim>\<open>os.path.exists\<close>\<close>
  cli_which :: "string \<Rightarrow> path option"                 \<comment> \<open>\<^verbatim>\<open>shutil.which\<close>\<close>
  import_whisper :: "string option"                    \<comment> \<open>\<^verbatim>\<open>import whisper\<close>\<close>
  cli_environ :: "string \<rightharpoonup> string"                   \<comment> \<open>\<^verbatim>\<open>os.environ\<close>\<close>
  cli_load_model :: "string \<Rightarrow> string + handle"        \<comment> \<open>\<^verbatim>\<open>whisper.load_model(name)\<close>\<close>
  askdirectory :: "path \<Rightarrow> string + path"
  cli_makedirs :: "path \<Rightarrow> string option"              \<comment> \<open>\<^verbatim>\<open>os.makedirs(d, exist_ok=True)\<close>\<close>
  cli_transcribe :: "handle \<Rightarrow> path \<Rightarrow> string + result" \<comment> \<open>\<^verbatim>\<open>model.transcribe(path)\<close>\<close>
  cli_now_stamp :: string                              \<comment> \<open>\<^verbatim>\<open>datetime.now().strftime(...)\<close>\<close>
  cli_open_error :: "path \<Rightarrow> string option"            \<comment> \<open>\<^verbatim>\<open>open(p, "w", encoding="utf-8")\<close>\<close>
  cli_write_error :: "path \<Rightarrow> string option"           \<comment> \<open>\<^verbatim>\<open>f.write(...)\<close>\<close>

text \<open>
  How \<^verbatim>\<open>main\<close> ends: it returns, it calls \<^verbatim>\<open>sys.exit(n)\<close>, or an exception leaves it
  uncaught.
\<close>

datatype ending = Returned | Exit int | Uncaught string

record cli_run =
  printed :: "string list"
  files :: "(path \<times> string) list"
  ending :: ending

definition cli_ensure_ffmpeg :: "cli_env \<Rightarrow> string option" where
  "cli_ensure_ffmpeg e =
     (if cli_which e ''ffmpeg'' = None
      then Some ''FFmpeg not found. Install it and make sure 'ffmpeg' is on your PATH.''
      else None)"

definition pick_output_dir :: "cli_env \<Rightarrow> path \<Rightarrow> path" where
  "pick_output_dir e default_dir =
     (if length (argv e) \<ge> 3 \<and> py_strip (argv e ! 2) \<noteq> [] then abspath e (argv e ! 2)
      else case askdirectory e default_dir of
             Inr out_dir \<Rightarrow> if out_dir \<noteq> [] then out_dir else default_dir
           | Inl x \<Rightarrow> default_dir)"

definition usage_lines :: "string list" where
  "usage_lines =
     [''Usage:'' @ [CHR 0x0A] @ ''  python transcribe.py <video_or_audio_path> [output_folder]'',
      [CHR 0x0A] @ ''Tip: You can also drag and drop the file onto the .bat shortcut.'']"

definition main :: "cli_env \<Rightarrow> cli_run" where
  "main e =
     (if length (argv e) < 2
      then \<lparr>printed = usage_lines, files = [], ending = Exit 1\<rparr>
      else
        (let media_path = abspath e (argv e ! 1)
         in if \<not> cli_exists e media_path
            then \<lparr>printed = [''File not found: '' @ media_path], files = [], ending = Exit 1\<rparr>
            else
              (case cli_ensure_ffmpeg e of
                 Some x \<Rightarrow> \<lparr>printed = [], files = [], ending = Uncaught x\<rparr>
               | None \<Rightarrow>
                   (case import_whisper e of
                      Some x \<Rightarrow>
                        \<lparr>printed = [''Whisper is not installed. Run:'' @ [CHR 0x0A] @
                                    ''  pip install -U openai-whisper''],
                         files = [], ending = Exit 1\<rparr>
                    | None \<Rightarrow>
                        (let model_name = (case cli_environ e ''WHISPER_MODEL'' of
                                             None \<Rightarrow> ''base'' | Some v \<Rightarrow> v);
                             out1 = [''[Whisper] Loading model: '' @ model_name @ '' ...'']
                         in case cli_load_model e model_name of
                              Inl x \<Rightarrow> \<lparr>printed = out1, files = [], ending = Uncaught x\<rparr>
                            | Inr h \<Rightarrow>
                                (let out_dir = pick_output_dir e (dirname media_path)
                                 in case cli_makedirs e out_dir of
                                      Some x \<Rightarrow>
                                        \<lparr>printed = out1, files = [], ending = Uncaught x\<rparr>
                                    | None \<Rightarrow>
                                        (let out2 = out1 @
                                               [''[Whisper] Transcribing: '' @ media_path]
                                         in case cli_transcribe e h media_path of
                                              Inl x \<Rightarrow>
                                                \<lparr>printed = out2, files = [],
                                                 ending = Uncaught x\<rparr>
                                            | Inr res \<Rightarrow>
                                                (let base_out = path_join out_dir
                                                       (safe_stem (cli_now_stamp e) media_path);
                                                     txt_path = base_out @ ''.txt''
                                                 in case cli_open_error e txt_path of
                                                      Some x \<Rightarrow>
                                                        \<lparr>printed = out2, files = [],
                                                         ending = Uncaught x\<rparr>
                                                    | None \<Rightarrow>
                                                        (case cli_write_error e txt_path of
                                                           Some x \<Rightarrow>
                                                             \<lparr>printed = out2,
                                                              files = [(txt_path, [])],
                                                              ending = Uncaught x\<rparr>
                                                         | None \<Rightarrow>
                                                             \<lparr>printed = out2 @
                                                                [''[Done] Transcript saved: '' @
                                                                 txt_path],
                                                              files =
                                                                [(txt_path,
                                                                  py_strip (dict_get res ''text'' [])
                                                                  @ [CHR 0x0A])],
                                                              ending = Returned\<rparr>)))))))))"

section \<open>Properties\<close>

text \<open>
  An iteration processes an item successfully when it takes a path that exists and
  control reaches the end of the \<^verbatim>\<open>try\<close> suite: no exception, and not the
  \<^verbatim>\<open>continue\<close> of the failed initialisation.
\<close>

definition iteration_completes :: "env \<Rightarrow> worker \<Rightarrow> bool" where
  "iteration_completes e w \<longleftrightarrow>
     \<not> stop_set w \<and>
     (case get (in_q w) of
        None \<Rightarrow> False
      | Some (p, q) \<Rightarrow> path_exists e p \<and> snd (try_suite e p (w\<lparr>in_q := q\<rparr>)) = Completed)"

text \<open>
  Two worlds for concrete runs. In the first everything works: every path exists except
  \<^verbatim>\<open>missing.wav\<close>, the libraries import, the model loads and returns a text with blanks
  around it, and the output-directory field holds \<^verbatim>\<open>/out\<close>. In the second the import of
  the speech library fails.
\<close>

definition world_ready :: env where
  "world_ready =
     \<lparr>path_exists = (\<lambda>p. p \<noteq> ''missing.wav''), import_error = None, cuda_available = False,
      environ = Map.empty, load_model = (\<lambda>n d. Inr 1), outdir_var = ''/out'',
      makedirs = (\<lambda>d. None), now_stamp = ''20240101_120000'',
      transcribe = (\<lambda>h p. Inr [''text'' \<mapsto> '' hello world '']),
      open_error = (\<lambda>p. None), write_error = (\<lambda>p. None), elapsed = 3,
      which = (\<lambda>n. Some (''/usr/bin/'' @ n))\<rparr>"

definition world_without_whisper :: env where
  "world_without_whisper = world_ready\<lparr>import_error := Some ''No module named whisper''\<rparr>"

text \<open>
  A run of the script on an existing file with an output folder given, and the same
  run on a machine where the speech library is not installed.
\<close>

definition cli_ready :: cli_env where
  "cli_ready =
     \<lparr>argv = [''transcribe.py'', ''/m/a.mp4'', ''/out''], abspath = (\<lambda>p. p),
      cli_exists = (\<lambda>p. True), cli_which = (\<lambda>n. Some (''/usr/bin/'' @ n)),
      import_whisper = None, cli_environ = Map.empty, cli_load_model = (\<lambda>n. Inr 1),
      askdirectory = (\<lambda>d. Inr []), cli_makedirs = (\<lambda>d. None),
      cli_transcribe = (\<lambda>h p. Inr [''text'' \<mapsto> '' hello world '']),
      cli_now_stamp = ''20240101_120000'', cli_open_error = (\<lambda>p. None),
      cli_write_error = (\<lambda>p. None)\<rparr>"

definition cli_without_whisper :: cli_env where
  "cli_without_whisper = cli_ready\<lparr>import_whisper := Some ''No module named whisper''\<rparr>"

subsection \<open>Paths\<close>

lemma rfind_ge: "- 1 \<le> rfind c s"
  by (induction s) (auto simp: Let_def)

lemma rfind_absent: "rfind c s = - 1 \<Longrightarrow> c \<notin> set s"
proof (induction s)
  case Nil
  then show ?case by simp
next
  case (Cons x s)
  then show ?case using rfind_ge [of c s]
    by (auto simp: Let_def split: if_splits)
qed

lemma rfind_drop: "c \<notin> set (drop (nat (rfind c s + 1)) s)"
proof (induction s)
  case Nil
  then show ?case by simp
next
  case (Cons x s)
  show ?case
  proof (cases "0 \<le> rfind c s")
    case True
    then have "nat (rfind c (x # s) + 1) = Suc (nat (rfind c s + 1))"
      by (simp add: Let_def nat_add_distrib)
    with Cons show ?thesis by simp
  next
    case False
    with rfind_ge [of c s] have m: "rfind c s = - 1" by linarith
    then have "c \<notin> set s" by (rule rfind_absent)
    with m show ?thesis by (auto simp: Let_def)
  qed
qed

lemma basename_no_slash: "CHR ''/'' \<notin> set (basename p)"
  unfolding basename_def by (rule rfind_drop)

lemma splitext_subset: "set (fst (splitext p)) \<subseteq> set p"
  by (auto simp: splitext_def Let_def dest: in_set_takeD)

lemma safe_stem_hd: "hd (safe_stem now p) \<noteq> CHR ''/''"
proof (cases "fst (splitext (basename p))")
  case Nil
  then show ?thesis by (simp add: safe_stem_def)
next
  case (Cons c cs)
  then have "c \<in> set (basename p)"
    using splitext_subset [of "basename p"] by auto
  with basename_no_slash [of p] have "c \<noteq> CHR ''/''" by auto
  with Cons show ?thesis by (simp add: safe_stem_def)
qed

lemma path_join_safe_stem:
  "d \<noteq> [] \<Longrightarrow> last d \<noteq> CHR ''/'' \<Longrightarrow>
   path_join d (safe_stem now p) = d @ ''/'' @ safe_stem now p"
  using safe_stem_hd [of now p] by (simp add: path_join_def)

subsection \<open>Steps of the worker\<close>

lemma task_done_uncaught_fields [simp]:
  "updates (task_done_uncaught w) = updates w"
  "written (task_done_uncaught w) = written w"
  "model (task_done_uncaught w) = model w"
  "stop_set (task_done_uncaught w) = stop_set w"
  "items (in_q (task_done_uncaught w)) = items (in_q w)"
  by (simp_all add: task_done_uncaught_def task_done_def Let_def)

lemma on_update_fields [simp]:
  "updates (on_update w m) = updates w @ [m]"
  "written (on_update w m) = written w"
  "model (on_update w m) = model w"
  "in_q (on_update w m) = in_q w"
  "status (on_update w m) = status w"
  "stop_set (on_update w m) = stop_set w"
  by (simp_all add: on_update_def)

lemma task_done_positive:
  "0 < unfinished_tasks q \<Longrightarrow> task_done q = Inr (q\<lparr>unfinished_tasks := unfinished_tasks q - 1\<rparr>)"
  by (simp add: task_done_def Let_def)

lemma lazy_init_fields [simp]:
  "written (fst (lazy_init e w)) = written w"
  "in_q (fst (lazy_init e w)) = in_q w"
  "status (fst (lazy_init e w)) = status w"
  "stop_set (fst (lazy_init e w)) = stop_set w"
  by (simp_all add: lazy_init_def Let_def on_update_def split: option.splits sum.splits)

lemma lazy_init_ok_model: "lazy_init e w = (w1, None) \<Longrightarrow> model w1 \<noteq> None"
  by (auto simp: lazy_init_def Let_def split: option.splits sum.splits)

lemma transcribe_item_completed:
  assumes "transcribe_item e p w = (w', Completed)"
  shows "\<exists>h res. model w = Some h \<and> model w' = Some h \<and> transcribe e h p = Inr res \<and>
           written w' = written w @
             [(path_join (if get_outdir e \<noteq> [] then get_outdir e else dirname p)
                 (safe_stem (now_stamp e) p) @ ''.txt'',
               py_strip (dict_get res ''text'' []) @ [CHR 0x0A])]"
  using assms
  by (auto simp: transcribe_item_def Let_def on_update_def split: option.splits sum.splits if_splits)

lemma try_suite_completed:
  assumes "try_suite e p w = (w', Completed)"
  shows "\<exists>h res. model w' = Some h \<and> transcribe e h p = Inr res \<and>
           written w' = written w @
             [(path_join (if get_outdir e \<noteq> [] then get_outdir e else dirname p)
                 (safe_stem (now_stamp e) p) @ ''.txt'',
               py_strip (dict_get res ''text'' []) @ [CHR 0x0A])]"
proof (cases "model w")
  case None
  obtain w1 x where li: "lazy_init e w = (w1, x)" by (cases "lazy_init e w")
  with None assms have x: "x = None" and ti: "transcribe_item e p w1 = (w', Completed)"
    by (auto simp: try_suite_def Let_def split: option.splits sum.splits)
  from li have "written w1 = written w" using lazy_init_fields(1) [of e w] by simp
  with transcribe_item_completed [OF ti] show ?thesis by auto
next
  case (Some h)
  with assms have "transcribe_item e p w = (w', Completed)"
    by (simp add: try_suite_def)
  from transcribe_item_completed [OF this] show ?thesis by auto
qed

lemma worker_iter_completed:
  assumes "iteration_completes e w" and "items (in_q w) = p # ps"
  shows "\<exists>w'. try_suite e p (w\<lparr>in_q := (in_q w)\<lparr>items := ps\<rparr>\<rparr>) = (w', Completed) \<and>
               worker_iter e w = task_done_uncaught w'"
  using assms
  by (cases "try_suite e p (w\<lparr>in_q := (in_q w)\<lparr>items := ps\<rparr>\<rparr>)")
     (auto simp: iteration_completes_def worker_iter_def get_def Let_def)

lemma try_suite_completed_state:
  assumes "try_suite e p w = (w', Completed)"
  shows "in_q w' = in_q w \<and> status w' = status w \<and> stop_set w' = stop_set w"
proof -
  have ti: "\<And>v v'. transcribe_item e p v = (v', Completed) \<Longrightarrow>
              in_q v' = in_q v \<and> status v' = status v \<and> stop_set v' = stop_set v"
    by (auto simp: transcribe_item_def Let_def on_update_def
             split: option.splits sum.splits if_splits)
  show ?thesis
  proof (cases "model w")
    case None
    obtain w1 x where li: "lazy_init e w = (w1, x)" by (cases "lazy_init e w")
    with None assms have "transcribe_item e p w1 = (w', Completed)"
      by (auto simp: try_suite_def Let_def split: option.splits sum.splits)
    from ti [OF this] li lazy_init_fields [of e w] show ?thesis by simp
  next
    case (Some h)
    with assms have "transcribe_item e p w = (w', Completed)" by (simp add: try_suite_def)
    from ti [OF this] show ?thesis .
  qed
qed

lemma completed_iteration_state:
  assumes "iteration_completes e w" and "items (in_q w) = p # ps"
      and "0 < unfinished_tasks (in_q w)"
  shows "status (worker_iter e w) = status w \<and> items (in_q (worker_iter e w)) = ps \<and>
         stop_set (worker_iter e w) = stop_set w"
proof -
  from worker_iter_completed [OF assms(1,2)] obtain w' where
    ts: "try_suite e p (w\<lparr>in_q := (in_q w)\<lparr>items := ps\<rparr>\<rparr>) = (w', Completed)" and
    wi: "worker_iter e w = task_done_uncaught w'" by blast
  from try_suite_completed_state [OF ts]
  have q: "in_q w' = (in_q w)\<lparr>items := ps\<rparr>" and s: "status w' = status w"
    and t: "stop_set w' = stop_set w" by simp_all
  from q assms(3) have "task_done (in_q w') =
      Inr ((in_q w')\<lparr>unfinished_tasks := unfinished_tasks (in_q w') - 1\<rparr>)"
    by (simp add: task_done_positive)
  with wi q s t show ?thesis by (simp add: task_done_uncaught_def)
qed

lemma completed_iteration_written:
  assumes "iteration_completes e w" and "items (in_q w) = p # ps"
  shows "map fst (written (worker_iter e w)) = map fst (written w) @
           [path_join (if get_outdir e \<noteq> [] then get_outdir e else dirname p)
              (safe_stem (now_stamp e) p) @ ''.txt'']"
proof -
  from worker_iter_completed [OF assms] obtain w' where
    ts: "try_suite e p (w\<lparr>in_q := (in_q w)\<lparr>items := ps\<rparr>\<rparr>) = (w', Completed)" and
    wi: "worker_iter e w = task_done_uncaught w'" by blast
  from try_suite_completed [OF ts] wi show ?thesis by auto
qed

subsection \<open>A failed initialisation marks the item done twice\<close>

text \<open>
  C1. The claim: \<^verbatim>\<open>join()\<close> returns if and only if every submitted item has reached a
  terminal state, each item being marked done exactly once. On the code: the thread
  starts with FFmpeg in place, and two existing files are submitted on a machine without
  the speech library. The handler of the failed
  initialisation calls \<^verbatim>\<open>task_done\<close> and continues, and the \<^verbatim>\<open>finally\<close> clause calls
  it again. After the first iteration the counter is zero, so \<^verbatim>\<open>join()\<close> returns, while
  the second file is still in the queue and no message about it has been emitted.
\<close>

theorem join_returns_while_item_pending:
  "join_returns (in_q (run world_ready [world_without_whisper]
       (start_transcribe [''/m/a.mp3'', ''/m/b.mp3''] (new_worker new_queue)))) \<and>
   items (in_q (run world_ready [world_without_whisper]
       (start_transcribe [''/m/a.mp3'', ''/m/b.mp3''] (new_worker new_queue)))) = [''/m/b.mp3''] \<and>
   updates (run world_ready [world_without_whisper]
       (start_transcribe [''/m/a.mp3'', ''/m/b.mp3''] (new_worker new_queue))) =
     [missing_dependencies, ''No module named whisper'']"
  by code_simp

text \<open>
  C2. The claim: one terminal message per submitted path, in submission order. On the
  code: three existing files are submitted on a machine without the speech library. The
  second iteration ends with \<^verbatim>\<open>task_done\<close> raising \<^verbatim>\<open>ValueError\<close> in the \<^verbatim>\<open>finally\<close>
  clause, which ends the thread; the third file stays in the queue and never gets a
  message, however long the run.
\<close>

theorem third_item_gets_no_message:
  "updates (run world_ready
       [world_without_whisper, world_without_whisper, world_without_whisper, world_without_whisper]
       (start_transcribe [''/m/a.mp3'', ''/m/b.mp3'', ''/m/c.mp3''] (new_worker new_queue))) =
     [missing_dependencies, ''No module named whisper'',
      missing_dependencies, ''No module named whisper''] \<and>
   items (in_q (run world_ready
       [world_without_whisper, world_without_whisper, world_without_whisper, world_without_whisper]
       (start_transcribe [''/m/a.mp3'', ''/m/b.mp3'', ''/m/c.mp3''] (new_worker new_queue)))) =
     [''/m/c.mp3''] \<and>
   status (run world_ready
       [world_without_whisper, world_without_whisper, world_without_whisper, world_without_whisper]
       (start_transcribe [''/m/a.mp3'', ''/m/b.mp3'', ''/m/c.mp3''] (new_worker new_queue))) =
     Crashed ''task_done() called too many times''"
  by code_simp

text \<open>
  C3. The claim: after a failing initialisation two submitted items yield two
  independent error reports and the worker loop is still alive afterwards. On the code:
  both items are reported, but the second report is followed by a third message, the
  \<^verbatim>\<open>ValueError\<close> of the surplus \<^verbatim>\<open>task_done\<close>, and the same error then leaves the
  \<^verbatim>\<open>finally\<close> clause uncaught: the thread is dead after the second item.
\<close>

theorem worker_dead_after_two_failed_items:
  "updates (run world_ready [world_without_whisper, world_without_whisper]
       (start_transcribe [''/m/a.mp3'', ''/m/b.mp3''] (new_worker new_queue))) =
     [missing_dependencies, ''No module named whisper'',
      missing_dependencies, ''No module named whisper'',
      ''[Error] task_done() called too many times''] \<and>
   status (run world_ready [world_without_whisper, world_without_whisper]
       (start_transcribe [''/m/a.mp3'', ''/m/b.mp3''] (new_worker new_queue))) =
     Crashed ''task_done() called too many times''"
  by code_simp

subsection \<open>Missing paths\<close>

text \<open>
  One iteration on a path that does not exist: exactly one skip message, no file, the
  rest of the queue and the model handle as they were; and, where the counter still
  counts the item, one decrement and a thread that keeps running.
\<close>

lemma skip_iteration:
  assumes "\<not> stop_set w" and "items (in_q w) = p # ps" and "\<not> path_exists e p"
  shows "updates (worker_iter e w) = updates w @ [''[Skip] Not found: '' @ p] \<and>
         written (worker_iter e w) = written w \<and>
         items (in_q (worker_iter e w)) = ps \<and>
         model (worker_iter e w) = model w \<and>
         (0 < unfinished_tasks (in_q w) \<longrightarrow>
            unfinished_tasks (in_q (worker_iter e w)) = unfinished_tasks (in_q w) - 1 \<and>
            (join_returns (in_q (worker_iter e w)) \<longleftrightarrow> unfinished_tasks (in_q w) = 1) \<and>
            status (worker_iter e w) = status w)"
proof -
  let ?v = "on_update (w\<lparr>in_q := (in_q w)\<lparr>items := ps\<rparr>\<rparr>) (''[Skip] Not found: '' @ p)"
  from assms have wi: "worker_iter e w = task_done_uncaught ?v"
    by (simp add: worker_iter_def get_def Let_def)
  have u: "updates (task_done_uncaught ?v) = updates w @ [''[Skip] Not found: '' @ p]"
    and f: "written (task_done_uncaught ?v) = written w"
    and i: "items (in_q (task_done_uncaught ?v)) = ps"
    and m: "model (task_done_uncaught ?v) = model w"
    by simp_all
  have c: "0 < unfinished_tasks (in_q w) \<longrightarrow>
            unfinished_tasks (in_q (task_done_uncaught ?v)) = unfinished_tasks (in_q w) - 1 \<and>
            (join_returns (in_q (task_done_uncaught ?v)) \<longleftrightarrow> unfinished_tasks (in_q w) = 1) \<and>
            status (task_done_uncaught ?v) = status w"
    by (simp add: task_done_uncaught_def task_done_positive join_returns_def)
  from u f i m c show ?thesis by (simp only: wi simp_thms)
qed

text \<open>
  C4. The claim: every submitted path that does not exist when it is processed gets one
  skip message, is marked done so that \<^verbatim>\<open>join()\<close> returns, and does not keep the worker
  from the next item. On the code: an existing file and then \<^verbatim>\<open>missing.wav\<close> are
  submitted on a machine without the speech library. The failed initialisation of the
  first item marks it done twice, which leaves the counter at zero; the skip message of
  the second item is emitted, but its \<^verbatim>\<open>task_done\<close>, which no handler encloses, raises
  \<^verbatim>\<open>ValueError\<close> and ends the thread: the item is not marked done and the worker takes
  no further item.
\<close>

theorem skip_after_failed_initialisation_ends_thread:
  "updates (run world_ready [world_without_whisper, world_without_whisper]
       (start_transcribe [''/m/a.mp3'', ''missing.wav''] (new_worker new_queue))) =
     [missing_dependencies, ''No module named whisper'', ''[Skip] Not found: missing.wav''] \<and>
   unfinished_tasks (in_q (run world_ready [world_without_whisper]
       (start_transcribe [''/m/a.mp3'', ''missing.wav''] (new_worker new_queue)))) = 0 \<and>
   status (run world_ready [world_without_whisper, world_without_whisper]
       (start_transcribe [''/m/a.mp3'', ''missing.wav''] (new_worker new_queue))) =
     Crashed ''task_done() called too many times''"
  by code_simp

subsection \<open>The output file\<close>

text \<open>
  C5. An item that is processed successfully, with input stem \<open>stem\<close> and chosen output
  directory \<open>D\<close>, adds exactly one file to those written: its name is \<open>D\<close> joined with
  \<open>stem_transcript_timestamp.txt\<close>, which is \<open>D/stem_transcript_timestamp.txt\<close> when
  \<open>D\<close> does not end in a slash, and its content is the transcribed text, stripped,
  followed by a newline and nothing else.
\<close>

theorem one_transcript_file_per_completed_item:
  assumes "iteration_completes e w" and "items (in_q w) = p # ps"
      and "D = (if get_outdir e \<noteq> [] then get_outdir e else dirname p)"
      and "stem = fst (splitext (basename p))"
  shows "\<exists>h res. model (worker_iter e w) = Some h \<and> transcribe e h p = Inr res \<and>
           written (worker_iter e w) = written w @
             [(path_join D (stem @ ''_transcript_'' @ now_stamp e) @ ''.txt'',
               py_strip (dict_get res ''text'' []) @ [CHR 0x0A])] \<and>
           (D \<noteq> [] \<and> last D \<noteq> CHR ''/'' \<longrightarrow>
              path_join D (stem @ ''_transcript_'' @ now_stamp e) @ ''.txt'' =
              D @ ''/'' @ stem @ ''_transcript_'' @ now_stamp e @ ''.txt'')"
proof -
  from worker_iter_completed [OF assms(1,2)] obtain w' where
    ts: "try_suite e p (w\<lparr>in_q := (in_q w)\<lparr>items := ps\<rparr>\<rparr>) = (w', Completed)" and
    wi: "worker_iter e w = task_done_uncaught w'" by blast
  from try_suite_completed [OF ts] obtain h res where
    m: "model w' = Some h" and
    tr: "transcribe e h p = Inr res" and
    wr: "written w' = written w @
             [(path_join D (safe_stem (now_stamp e) p) @ ''.txt'',
               py_strip (dict_get res ''text'' []) @ [CHR 0x0A])]"
    using assms(3) by auto
  have st: "safe_stem (now_stamp e) p = stem @ ''_transcript_'' @ now_stamp e"
    using assms(4) by (simp add: safe_stem_def)
  have "D \<noteq> [] \<and> last D \<noteq> CHR ''/'' \<longrightarrow>
        path_join D (stem @ ''_transcript_'' @ now_stamp e) @ ''.txt'' =
        D @ ''/'' @ stem @ ''_transcript_'' @ now_stamp e @ ''.txt''"
    using path_join_safe_stem [of D "now_stamp e" p] st by simp
  with m tr wr wi st show ?thesis by auto
qed

theorem one_transcript_file_per_completed_item_witness:
  "written (worker_iter world_ready (start_transcribe [''/m/a.mp3''] (new_worker new_queue))) =
     [(''/out/a_transcript_20240101_120000.txt'', ''hello world'' @ [CHR 0x0A])]"
proof -
  let ?w = "start_transcribe [''/m/a.mp3''] (new_worker new_queue)"
  have c: "iteration_completes world_ready ?w" by code_simp
  have i: "items (in_q ?w) = [''/m/a.mp3'']" by code_simp
  have d: "''/out'' = (if get_outdir world_ready \<noteq> [] then get_outdir world_ready
                       else dirname ''/m/a.mp3'')" by code_simp
  have s: "''a'' = fst (splitext (basename ''/m/a.mp3''))" by code_simp
  have t: "\<And>h. transcribe world_ready h ''/m/a.mp3'' = Inr [''text'' \<mapsto> '' hello world '']"
    by (simp add: world_ready_def)
  have n: "now_stamp world_ready = ''20240101_120000''" by (simp add: world_ready_def)
  have g: "py_strip (dict_get [''text'' \<mapsto> '' hello world ''] ''text'' []) = ''hello world''"
    by code_simp
  have e: "written ?w = []" by code_simp
  from one_transcript_file_per_completed_item [OF c i d s]
  show ?thesis using t n g e by (auto simp: path_join_def)
qed

subsection \<open>The output directory\<close>

text \<open>
  C6. The output-directory setting is read when an item is processed, not when it is
  submitted. Items A and B are queued together and processed in two successive
  iterations, each successfully; the field of the window holds one value during the
  first iteration and another during the second. Each file is written to the directory
  that the field, stripped, names during the iteration of its own item, and to the
  parent directory of the item itself when the field is empty then. Nothing of the
  setting is stored with the queued item or in the worker.
\<close>

theorem outdir_read_when_item_is_processed:
  assumes "status w = Running" and "0 < unfinished_tasks (in_q w)"
      and "items (in_q w) = a # b # ps"
      and "iteration_completes eA w" and "iteration_completes eB (worker_iter eA w)"
  shows "map fst (written (worker_run [eA, eB] w)) = map fst (written w) @
           [path_join (if get_outdir eA \<noteq> [] then get_outdir eA else dirname a)
              (safe_stem (now_stamp eA) a) @ ''.txt'',
            path_join (if get_outdir eB \<noteq> [] then get_outdir eB else dirname b)
              (safe_stem (now_stamp eB) b) @ ''.txt'']"
proof -
  from completed_iteration_state [OF assms(4) assms(3) assms(2)] assms(1)
  have r: "status (worker_iter eA w) = Running" and i: "items (in_q (worker_iter eA w)) = b # ps"
    by simp_all
  from assms(1) r have "worker_run [eA, eB] w = worker_iter eB (worker_iter eA w)" by simp
  with completed_iteration_written [OF assms(5) i] completed_iteration_written [OF assms(4) assms(3)]
  show ?thesis by simp
qed

theorem outdir_read_when_item_is_processed_witness:
  "map fst (written (worker_run [world_ready\<lparr>outdir_var := '' /first ''\<rparr>,
                                 world_ready\<lparr>outdir_var := ''''\<rparr>]
       (start_transcribe [''/m/a.mp3'', ''/n/b.wav''] (new_worker new_queue)))) =
     [''/first/a_transcript_20240101_120000.txt'', ''/n/b_transcript_20240101_120000.txt'']"
proof -
  let ?w = "start_transcribe [''/m/a.mp3'', ''/n/b.wav''] (new_worker new_queue)"
  let ?eA = "world_ready\<lparr>outdir_var := '' /first ''\<rparr>"
  let ?eB = "world_ready\<lparr>outdir_var := ''''\<rparr>"
  have 1: "status ?w = Running" by code_simp
  have 2: "0 < unfinished_tasks (in_q ?w)" by code_simp
  have 3: "items (in_q ?w) = [''/m/a.mp3'', ''/n/b.wav'']" by code_simp
  have 4: "iteration_completes ?eA ?w" by code_simp
  have 5: "iteration_completes ?eB (worker_iter ?eA ?w)" by code_simp
  have 6: "map fst (written ?w) @
           [path_join (if get_outdir ?eA \<noteq> [] then get_outdir ?eA else dirname ''/m/a.mp3'')
              (safe_stem (now_stamp ?eA) ''/m/a.mp3'') @ ''.txt'',
            path_join (if get_outdir ?eB \<noteq> [] then get_outdir ?eB else dirname ''/n/b.wav'')
              (safe_stem (now_stamp ?eB) ''/n/b.wav'') @ ''.txt''] =
     [''/first/a_transcript_20240101_120000.txt'', ''/n/b_transcript_20240101_120000.txt'']"
    by code_simp
  from outdir_read_when_item_is_processed [OF 1 2 3 4 5] show ?thesis by (simp only: 6)
qed

subsection \<open>Stripping\<close>

lemma rstrip_decomp: "s = py_rstrip s @ rev (takeWhile py_isspace (rev s))"
proof -
  have "rev (takeWhile py_isspace (rev s) @ dropWhile py_isspace (rev s)) = rev (rev s)"
    by (simp only: takeWhile_dropWhile_id)
  then have "rev (dropWhile py_isspace (rev s)) @ rev (takeWhile py_isspace (rev s)) = s"
    by (simp only: rev_append rev_rev_ident)
  then show ?thesis by (simp only: py_rstrip_def)
qed

lemma strip_decomp:
  "t = takeWhile py_isspace t @ py_strip t @ rev (takeWhile py_isspace (rev (py_lstrip t)))"
proof -
  have "t = takeWhile py_isspace t @ py_lstrip t" by (simp add: py_lstrip_def)
  also have "py_lstrip t = py_strip t @ rev (takeWhile py_isspace (rev (py_lstrip t)))"
    unfolding py_strip_def by (rule rstrip_decomp)
  finally show ?thesis by simp
qed

lemma strip_last: "py_strip t \<noteq> [] \<Longrightarrow> \<not> py_isspace (last (py_strip t))"
  unfolding py_strip_def py_rstrip_def
  using hd_dropWhile [of py_isspace "rev (py_lstrip t)"]
  by (simp add: last_rev)

lemma strip_hd: "py_strip t \<noteq> [] \<Longrightarrow> \<not> py_isspace (hd (py_strip t))"
proof -
  assume ne: "py_strip t \<noteq> []"
  have d: "py_lstrip t = py_strip t @ rev (takeWhile py_isspace (rev (py_lstrip t)))"
    unfolding py_strip_def by (rule rstrip_decomp)
  with ne have "hd (py_lstrip t) = hd (py_strip t)"
    by (metis hd_append2)
  moreover from d ne have "py_lstrip t \<noteq> []" by auto
  then have "\<not> py_isspace (hd (py_lstrip t))"
    unfolding py_lstrip_def by (rule hd_dropWhile)
  ultimately show ?thesis by simp
qed

lemma strip_trimmed: "py_strip (py_strip t) = py_strip t"
proof (cases "py_strip t = []")
  case True
  have "py_strip [] = []" by (simp add: py_strip_def py_rstrip_def py_lstrip_def)
  with True show ?thesis by simp
next
  case False
  from strip_hd [OF False] False have l: "py_lstrip (py_strip t) = py_strip t"
    by (cases "py_strip t") (auto simp: py_lstrip_def)
  from strip_last [OF False] False have "dropWhile py_isspace (rev (py_strip t)) = rev (py_strip t)"
    by (cases "rev (py_strip t)") (auto simp: last_rev [symmetric] hd_rev)
  then have "py_rstrip (py_strip t) = py_strip t" by (simp add: py_rstrip_def)
  with l show ?thesis by (simp add: py_strip_def [of "py_strip t"])
qed

subsection \<open>Dropped paths\<close>

lemma split_loop_plain:
  "list_all (\<lambda>c. c \<noteq> CHR '' '' \<and> c \<noteq> CHR ''{'' \<and> c \<noteq> CHR ''}'') s \<Longrightarrow>
   split_loop (s @ rest) out buf False = split_loop rest out (buf @ s) False"
  by (induction s arbitrary: buf) auto

lemma split_loop_in_brace:
  "list_all (\<lambda>c. c \<noteq> CHR ''{'' \<and> c \<noteq> CHR ''}'') s \<Longrightarrow>
   split_loop (s @ rest) out buf True = split_loop rest out (buf @ s) True"
  by (induction s arbitrary: buf) auto

lemma split_loop_braced:
  assumes "list_all (\<lambda>c. c \<noteq> CHR ''{'' \<and> c \<noteq> CHR ''}'') s"
  shows "split_loop (''{'' @ s @ ''}'' @ rest) out buf b = split_loop rest (out @ [s]) [] False"
proof -
  have "split_loop (''{'' @ s @ ''}'' @ rest) out buf b = split_loop (s @ ''}'' @ rest) out [] True"
    by simp
  also have "\<dots> = split_loop (''}'' @ rest) out s True"
    using split_loop_in_brace [OF assms, of "''}'' @ rest" out "[]"] by simp
  also have "\<dots> = split_loop rest (out @ [s]) [] False" by simp
  finally show ?thesis .
qed

lemma split_loop_item_end:
  assumes "item_ok x"
  shows "split_loop (item_text x) out [] False = out @ item_buffers x"
proof (cases x)
  case (Bare s)
  with assms split_loop_plain [of s "[]" out "[]"] show ?thesis by simp
next
  case (Braced s)
  with assms split_loop_braced [of s "[]" out "[]" False] show ?thesis by simp
qed

lemma split_loop_item_space:
  assumes "item_ok x"
  shows "split_loop (item_text x @ '' '' @ rest) out [] False =
         split_loop rest (out @ item_buffers x) [] False"
proof (cases x)
  case (Bare s)
  with assms split_loop_plain [of s "'' '' @ rest" out "[]"] show ?thesis by simp
next
  case (Braced s)
  with assms split_loop_braced [of s "'' '' @ rest" out "[]" False] show ?thesis by simp
qed

lemma split_loop_dnd_data:
  "list_all item_ok xs \<Longrightarrow>
   split_loop (dnd_data xs) out [] False = out @ concat (map item_buffers xs)"
proof (induction xs arbitrary: out rule: dnd_data.induct)
  case 1
  then show ?case by simp
next
  case (2 x)
  then show ?case using split_loop_item_end [of x out] by simp
next
  case (3 x y ys)
  then have "split_loop (dnd_data (x # y # ys)) out [] False =
             split_loop (dnd_data (y # ys)) (out @ item_buffers x) [] False"
    using split_loop_item_space [of x "dnd_data (y # ys)" out] by simp
  with 3 show ?case by simp
qed

lemma strip_empty: "py_strip [] = []"
  by (simp add: py_strip_def py_rstrip_def py_lstrip_def)

lemma item_buffers_paths:
  "map py_strip (filter (\<lambda>p. py_strip p \<noteq> []) (item_buffers x)) =
   filter (\<lambda>p. p \<noteq> []) [py_strip (item_path x)]"
  by (cases x) (auto simp: strip_empty)

lemma buffers_paths:
  "map py_strip (filter (\<lambda>p. py_strip p \<noteq> []) (concat (map item_buffers xs))) =
   filter (\<lambda>p. p \<noteq> []) (map (\<lambda>x. py_strip (item_path x)) xs)"
proof (induction xs)
  case Nil
  then show ?case by simp
next
  case (Cons x xs)
  have "map py_strip (filter (\<lambda>p. py_strip p \<noteq> []) (concat (map item_buffers (x # xs)))) =
        map py_strip (filter (\<lambda>p. py_strip p \<noteq> []) (item_buffers x)) @
        map py_strip (filter (\<lambda>p. py_strip p \<noteq> []) (concat (map item_buffers xs)))"
    by simp
  also have "\<dots> = filter (\<lambda>p. p \<noteq> []) [py_strip (item_path x)] @
                  filter (\<lambda>p. p \<noteq> []) (map (\<lambda>x. py_strip (item_path x)) xs)"
    by (simp only: item_buffers_paths Cons.IH)
  finally show ?case by simp
qed

text \<open>
  C9, as stated: the splitter parses a whitespace-delimited list, so whitespace outside
  braces separates paths. A tab outside braces does not: the loop compares with the
  space character only, and the data \<^verbatim>\<open>a<TAB>b\<close> comes back as one path.
\<close>

theorem split_dnd_paths_tab_counterexample:
  "py_isspace (CHR 0x09) \<and>
   split_dnd_paths [CHR ''a'', CHR 0x09, CHR ''b''] = [[CHR ''a'', CHR 0x09, CHR ''b'']] \<and>
   spec_whitespace_delimited_paths [CHR ''a'', CHR 0x09, CHR ''b''] = [''a'', ''b''] \<and>
   split_dnd_paths [CHR ''a'', CHR 0x09, CHR ''b''] \<noteq>
   spec_whitespace_delimited_paths [CHR ''a'', CHR 0x09, CHR ''b'']"
  by code_simp

text \<open>
  Outside the format of the drop source the loop loses text: an opening brace empties
  the buffer, so what stands directly before a brace group, and what stands before a
  nested opening brace, is dropped.
\<close>

lemma split_dnd_paths_drops_text_before_brace:
  "split_dnd_paths ''a{b}c.mp3'' = [''b'', ''c.mp3''] \<and>
   split_dnd_paths ''{a {b} c.mp3}'' = [''b'', ''c.mp3''] \<and>
   split_dnd_paths ''x{a b}y z'' = [''a b'', ''y'', ''z'']"
  by code_simp

text \<open>
  C9, amended: on data in the format of the drop source, a list of items with single
  spaces between them, each item a bare path that holds no space and no brace (possibly
  empty, which covers runs of spaces and spaces at either end) or a brace group whose
  content holds no brace, the splitter returns exactly the non-empty trimmed paths in
  their order of appearance; the content of a brace group forms one path with its inner
  spaces kept, and only the space character separates, so a tab or a newline inside a
  bare path stays in it. On every data string whatever, each returned path is non-empty
  and trimmed.
\<close>

theorem split_dnd_paths_space_delimited:
  "(list_all item_ok xs \<longrightarrow>
      split_dnd_paths (dnd_data xs) =
      filter (\<lambda>p. p \<noteq> []) (map (\<lambda>x. py_strip (item_path x)) xs)) \<and>
   (\<forall>p \<in> set (split_dnd_paths data). p \<noteq> [] \<and> py_strip p = p)"
proof
  show "list_all item_ok xs \<longrightarrow>
      split_dnd_paths (dnd_data xs) =
      filter (\<lambda>p. p \<noteq> []) (map (\<lambda>x. py_strip (item_path x)) xs)"
  proof
    assume "list_all item_ok xs"
    then have "split_loop (dnd_data xs) [] [] False = concat (map item_buffers xs)"
      using split_loop_dnd_data [of xs "[]"] by simp
    then show "split_dnd_paths (dnd_data xs) =
      filter (\<lambda>p. p \<noteq> []) (map (\<lambda>x. py_strip (item_path x)) xs)"
      by (simp only: split_dnd_paths_def buffers_paths)
  qed
  show "\<forall>p \<in> set (split_dnd_paths data). p \<noteq> [] \<and> py_strip p = p"
    by (auto simp: split_dnd_paths_def strip_trimmed)
qed

theorem split_dnd_paths_space_delimited_witness:
  "list_all item_ok [Braced ''C:/My Files/a b.mp3'', Bare ''C:/x.mp3'', Bare [], Braced '' y z ''] \<and>
   split_dnd_paths ''{C:/My Files/a b.mp3} C:/x.mp3  { y z }'' =
     [''C:/My Files/a b.mp3'', ''C:/x.mp3'', ''y z''] \<and>
   ''y z'' \<noteq> [] \<and> py_strip ''y z'' = ''y z''"
proof -
  let ?xs = "[Braced ''C:/My Files/a b.mp3'', Bare ''C:/x.mp3'', Bare [], Braced '' y z '']"
  let ?data = "''{C:/My Files/a b.mp3} C:/x.mp3  { y z }''"
  note t = split_dnd_paths_space_delimited [of ?xs ?data]
  have ok: "list_all item_ok ?xs" by code_simp
  have d: "dnd_data ?xs = ?data" by code_simp
  have r: "filter (\<lambda>p. p \<noteq> []) (map (\<lambda>x. py_strip (item_path x)) ?xs) =
           [''C:/My Files/a b.mp3'', ''C:/x.mp3'', ''y z'']" by code_simp
  from t [THEN conjunct1, THEN mp, OF ok]
  have s: "split_dnd_paths ?data = [''C:/My Files/a b.mp3'', ''C:/x.mp3'', ''y z'']"
    by (simp only: d r)
  then have "''y z'' \<in> set (split_dnd_paths ?data)" by simp
  with t [THEN conjunct2] have "''y z'' \<noteq> [] \<and> py_strip ''y z'' = ''y z''" by (rule bspec)
  with ok s show ?thesis by (intro conjI) simp_all
qed

subsection \<open>The model handle\<close>

lemma transcribe_item_model: "model (fst (transcribe_item e p w)) = model w"
  by (simp add: transcribe_item_def Let_def on_update_def split: option.splits sum.splits)

lemma try_suite_model_loaded: "model w = Some h \<Longrightarrow> model (fst (try_suite e p w)) = Some h"
  by (simp add: try_suite_def transcribe_item_model)

lemma worker_iter_model_loaded: "model w = Some h \<Longrightarrow> model (worker_iter e w) = Some h"
proof -
  assume m: "model w = Some h"
  show ?thesis
  proof (cases "get (in_q w)")
    case None
    with m show ?thesis by (simp add: worker_iter_def)
  next
    case (Some pq)
    obtain p q where pq: "pq = (p, q)" by (cases pq)
    obtain w1 fl where ts: "try_suite e p (w\<lparr>in_q := q\<rparr>) = (w1, fl)"
      by (cases "try_suite e p (w\<lparr>in_q := q\<rparr>)")
    from m have "model (fst (try_suite e p (w\<lparr>in_q := q\<rparr>))) = Some h"
      by (simp add: try_suite_model_loaded)
    with ts have "model w1 = Some h" by simp
    with m Some pq ts show ?thesis
      by (cases fl) (simp_all add: worker_iter_def Let_def)
  qed
qed

lemma worker_run_model_loaded: "model w = Some h \<Longrightarrow> model (worker_run es w) = Some h"
  by (induction es arbitrary: w) (simp_all add: worker_iter_model_loaded)

lemma worker_run_stopped: "status w \<noteq> Running \<Longrightarrow> worker_run es w = w"
  by (cases es) simp_all

lemma worker_run_append: "worker_run (es @ es') w = worker_run es' (worker_run es w)"
  by (induction es arbitrary: w) (simp_all add: worker_run_stopped)

lemma lazy_init_model:
  "model w = None \<Longrightarrow>
   model (fst (lazy_init e w)) =
     (case import_error e of
        Some x \<Rightarrow> None
      | None \<Rightarrow>
          (case load_model e (case environ e (model_name_env w) of None \<Rightarrow> ''base'' | Some v \<Rightarrow> v)
                  (if cuda_available e then ''cuda'' else ''cpu'') of
             Inl x \<Rightarrow> None
           | Inr h \<Rightarrow> Some h))"
  by (simp add: lazy_init_def Let_def on_update_def split: option.splits sum.splits)

lemma try_suite_model_init:
  "model w = None \<Longrightarrow> model (fst (try_suite e p w)) = model (fst (lazy_init e w))"
proof -
  assume m: "model w = None"
  obtain w1 x where li: "lazy_init e w = (w1, x)" by (cases "lazy_init e w")
  show ?thesis
  proof (cases x)
    case None
    with m li show ?thesis by (simp add: try_suite_def transcribe_item_model)
  next
    case (Some a)
    with m li show ?thesis
      by (simp add: try_suite_def Let_def split: sum.splits)
  qed
qed

lemma worker_iter_model_init:
  assumes "model w = None" and "\<not> stop_set w" and "items (in_q w) = p # ps"
      and "path_exists e p"
  shows "model (worker_iter e w) = model (fst (lazy_init e w))"
proof -
  let ?w0 = "w\<lparr>in_q := (in_q w)\<lparr>items := ps\<rparr>\<rparr>"
  obtain w1 fl where ts: "try_suite e p ?w0 = (w1, fl)" by (cases "try_suite e p ?w0")
  from assms(1) have "model (fst (try_suite e p ?w0)) = model (fst (lazy_init e ?w0))"
    by (simp add: try_suite_model_init)
  also have "\<dots> = model (fst (lazy_init e w))"
  proof -
    have n: "model_name_env ?w0 = model_name_env w" by simp
    from assms(1) have "model ?w0 = None" by simp
    from lazy_init_model [OF this, of e] lazy_init_model [OF assms(1), of e]
    show ?thesis by (simp only: n)
  qed
  finally have "model w1 = model (fst (lazy_init e w))" using ts by simp
  with assms ts show ?thesis
    by (cases fl) (simp_all add: worker_iter_def get_def Let_def)
qed

text \<open>
  Once a run has left a handle in place, every longer run of the same worker holds that
  very handle. While the handle is missing, an iteration that takes an existing path
  attempts the initialisation, and the handle afterwards is the one this attempt loaded.
\<close>

lemma model_handle_in_iterations:
  "(model (worker_run es w) = Some h \<longrightarrow> model (worker_run (es @ es') w) = Some h) \<and>
   (model w = None \<and> \<not> stop_set w \<and> items (in_q w) = p # ps \<and> path_exists e p \<longrightarrow>
      model (worker_iter e w) =
        (case import_error e of
           Some x \<Rightarrow> None
         | None \<Rightarrow>
             (case load_model e
                     (case environ e (model_name_env w) of None \<Rightarrow> ''base'' | Some v \<Rightarrow> v)
                     (if cuda_available e then ''cuda'' else ''cpu'') of
                Inl x \<Rightarrow> None
              | Inr h' \<Rightarrow> Some h')))"
proof (intro conjI impI)
  assume "model (worker_run es w) = Some h"
  then show "model (worker_run (es @ es') w) = Some h"
    by (simp add: worker_run_append worker_run_model_loaded)
next
  assume a: "model w = None \<and> \<not> stop_set w \<and> items (in_q w) = p # ps \<and> path_exists e p"
  then have "model (worker_iter e w) = model (fst (lazy_init e w))"
    using worker_iter_model_init [of w p ps e] by simp
  with a show "model (worker_iter e w) =
        (case import_error e of
           Some x \<Rightarrow> None
         | None \<Rightarrow>
             (case load_model e
                     (case environ e (model_name_env w) of None \<Rightarrow> ''base'' | Some v \<Rightarrow> v)
                     (if cuda_available e then ''cuda'' else ''cpu'') of
                Inl x \<Rightarrow> None
              | Inr h' \<Rightarrow> Some h'))"
    by (simp only: lazy_init_model)
qed

text \<open>
  C8. The claim: the handle is created at most once and never recreated, and while it
  remains unconstructed after a failed attempt every subsequent item re-attempts the
  initialisation. On the code: three existing files are submitted; the speech library
  fails to import while the first two are processed and is importable from then on. The
  two failed attempts mark their items done twice each, the surplus \<^verbatim>\<open>task_done\<close> in the
  \<^verbatim>\<open>finally\<close> clause of the second item ends the thread, and the third item is never
  taken: no third attempt is made, and the handle stays unconstructed in a world where
  the attempt would have succeeded.
\<close>

theorem third_item_never_attempts_initialisation:
  "model (run world_ready [world_without_whisper, world_without_whisper, world_ready, world_ready]
       (start_transcribe [''/m/a.mp3'', ''/m/b.mp3'', ''/m/c.mp3''] (new_worker new_queue))) = None \<and>
   items (in_q (run world_ready
       [world_without_whisper, world_without_whisper, world_ready, world_ready]
       (start_transcribe [''/m/a.mp3'', ''/m/b.mp3'', ''/m/c.mp3''] (new_worker new_queue)))) =
     [''/m/c.mp3''] \<and>
   status (run world_ready
       [world_without_whisper, world_without_whisper, world_ready, world_ready]
       (start_transcribe [''/m/a.mp3'', ''/m/b.mp3'', ''/m/c.mp3''] (new_worker new_queue))) =
     Crashed ''task_done() called too many times'' \<and>
   model (worker_iter world_ready
       (start_transcribe [''/m/c.mp3''] (new_worker new_queue))) = Some 1"
  by code_simp

subsection \<open>The text of the transcript\<close>

lemma main_returned:
  assumes "ending (main c) = Returned"
  shows "\<exists>h res.
           cli_load_model c (case cli_environ c ''WHISPER_MODEL'' of
                               None \<Rightarrow> ''base'' | Some v \<Rightarrow> v) = Inr h \<and>
           cli_transcribe c h (abspath c (argv c ! 1)) = Inr res \<and>
           map snd (files (main c)) = [py_strip (dict_get res ''text'' []) @ [CHR 0x0A]]"
  using assms
  by (auto simp: main_def Let_def split: if_splits option.splits sum.splits)

lemma completed_iteration_text:
  assumes "iteration_completes e w" and "items (in_q w) = p # ps"
  shows "\<exists>h res. model (worker_iter e w) = Some h \<and> transcribe e h p = Inr res \<and>
           map snd (drop (length (written w)) (written (worker_iter e w))) =
             [py_strip (dict_get res ''text'' []) @ [CHR 0x0A]]"
proof -
  from worker_iter_completed [OF assms] obtain w' where
    ts: "try_suite e p (w\<lparr>in_q := (in_q w)\<lparr>items := ps\<rparr>\<rparr>) = (w', Completed)" and
    wi: "worker_iter e w = task_done_uncaught w'" by blast
  from try_suite_completed [OF ts] obtain h res where
    m: "model w' = Some h" and tr: "transcribe e h p = Inr res" and
    wr: "written w' = written w @
             [(path_join (if get_outdir e \<noteq> [] then get_outdir e else dirname p)
                 (safe_stem (now_stamp e) p) @ ''.txt'',
               py_strip (dict_get res ''text'' []) @ [CHR 0x0A])]"
    by auto
  from wi m have a: "model (worker_iter e w) = Some h" by simp
  from wi wr have b: "map snd (drop (length (written w)) (written (worker_iter e w))) =
             [py_strip (dict_get res ''text'' []) @ [CHR 0x0A]]" by simp
  show ?thesis
    by (rule exI [of _ h], rule exI [of _ res]) (simp only: a tr b)
qed

text \<open>
  C10. In the worker of the window program and in the script alike, the text written to
  the output file is the \<^verbatim>\<open>text\<close> entry of the transcription result, stripped of
  leading and trailing whitespace, followed by exactly one newline; without such an
  entry the file holds the newline alone. The stripped text is the original without a
  whitespace prefix and a whitespace suffix, and neither begins nor ends with
  whitespace, so the single final newline is the only whitespace at either end.
\<close>

theorem transcript_is_stripped_text_and_newline:
  "(iteration_completes e w \<and> items (in_q w) = p # ps \<longrightarrow>
      (\<exists>h res. model (worker_iter e w) = Some h \<and> transcribe e h p = Inr res \<and>
         map snd (drop (length (written w)) (written (worker_iter e w))) =
           [py_strip (dict_get res ''text'' []) @ [CHR 0x0A]])) \<and>
   (ending (main c) = Returned \<longrightarrow>
      (\<exists>h res.
         cli_load_model c (case cli_environ c ''WHISPER_MODEL'' of
                             None \<Rightarrow> ''base'' | Some v \<Rightarrow> v) = Inr h \<and>
         cli_transcribe c h (abspath c (argv c ! 1)) = Inr res \<and>
         map snd (files (main c)) = [py_strip (dict_get res ''text'' []) @ [CHR 0x0A]])) \<and>
   (r ''text'' = None \<longrightarrow> py_strip (dict_get r ''text'' []) @ [CHR 0x0A] = [CHR 0x0A]) \<and>
   (py_strip t = [] \<or>
      \<not> py_isspace (hd (py_strip t)) \<and> \<not> py_isspace (last (py_strip t))) \<and>
   (\<exists>l r. t = l @ py_strip t @ r \<and> list_all py_isspace l \<and> list_all py_isspace r)"
proof (intro conjI impI)
  assume "iteration_completes e w \<and> items (in_q w) = p # ps"
  then show "\<exists>h res. model (worker_iter e w) = Some h \<and> transcribe e h p = Inr res \<and>
         map snd (drop (length (written w)) (written (worker_iter e w))) =
           [py_strip (dict_get res ''text'' []) @ [CHR 0x0A]]"
    using completed_iteration_text [of e w p ps] by simp
next
  assume "ending (main c) = Returned"
  then show "\<exists>h res.
         cli_load_model c (case cli_environ c ''WHISPER_MODEL'' of
                             None \<Rightarrow> ''base'' | Some v \<Rightarrow> v) = Inr h \<and>
         cli_transcribe c h (abspath c (argv c ! 1)) = Inr res \<and>
         map snd (files (main c)) = [py_strip (dict_get res ''text'' []) @ [CHR 0x0A]]"
    by (rule main_returned)
next
  assume "r ''text'' = None"
  then show "py_strip (dict_get r ''text'' []) @ [CHR 0x0A] = [CHR 0x0A]"
    by (simp add: dict_get_def strip_empty)
next
  show "py_strip t = [] \<or>
      \<not> py_isspace (hd (py_strip t)) \<and> \<not> py_isspace (last (py_strip t))"
    using strip_hd [of t] strip_last [of t] by blast
next
  have "t = takeWhile py_isspace t @ py_strip t @ rev (takeWhile py_isspace (rev (py_lstrip t)))"
    by (rule strip_decomp)
  moreover have "list_all py_isspace (takeWhile py_isspace t)"
    by (simp add: list_all_iff) (meson set_takeWhileD)
  moreover have "list_all py_isspace (rev (takeWhile py_isspace (rev (py_lstrip t))))"
    by (simp add: list_all_iff) (meson set_takeWhileD)
  ultimately show "\<exists>l r. t = l @ py_strip t @ r \<and> list_all py_isspace l \<and> list_all py_isspace r"
    by (intro exI conjI)
qed


theorem transcript_is_stripped_text_and_newline_witness:
  "map snd (written (worker_iter world_ready
       (start_transcribe [''/m/a.mp3''] (new_worker new_queue)))) = [''hello world'' @ [CHR 0x0A]] \<and>
   map snd (files (main cli_ready)) = [''hello world'' @ [CHR 0x0A]] \<and>
   py_strip (dict_get Map.empty ''text'' []) @ [CHR 0x0A] = [CHR 0x0A]"
proof -
  let ?w = "start_transcribe [''/m/a.mp3''] (new_worker new_queue)"
  note t = transcript_is_stripped_text_and_newline
             [of world_ready ?w "''/m/a.mp3''" "[]" cli_ready Map.empty "'' hello world ''"]
  have 1: "iteration_completes world_ready ?w \<and> items (in_q ?w) = [''/m/a.mp3'']"
    by code_simp
  have 2: "ending (main cli_ready) = Returned" by code_simp
  have 3: "(Map.empty :: result) ''text'' = None" by simp
  have 4: "written ?w = []" by code_simp
  have 5: "py_strip (dict_get [''text'' \<mapsto> '' hello world ''] ''text'' []) = ''hello world''"
    by code_simp
  from t [THEN conjunct1, THEN mp, OF 1] obtain h res where
    "transcribe world_ready h ''/m/a.mp3'' = Inr res" and
    a: "map snd (drop (length (written ?w)) (written (worker_iter world_ready ?w))) =
          [py_strip (dict_get res ''text'' []) @ [CHR 0x0A]]" by auto
  then have "res = [''text'' \<mapsto> '' hello world '']" by (simp add: world_ready_def)
  with a 4 5 have g: "map snd (written (worker_iter world_ready ?w)) = [''hello world'' @ [CHR 0x0A]]"
    by simp
  from t [THEN conjunct2, THEN conjunct1, THEN mp, OF 2] obtain h' res' where
    "cli_transcribe cli_ready h' (abspath cli_ready (argv cli_ready ! 1)) = Inr res'" and
    b: "map snd (files (main cli_ready)) = [py_strip (dict_get res' ''text'' []) @ [CHR 0x0A]]"
    by auto
  then have "res' = [''text'' \<mapsto> '' hello world '']" by (simp add: cli_ready_def)
  with b 5 have c: "map snd (files (main cli_ready)) = [''hello world'' @ [CHR 0x0A]]" by simp
  from t [THEN conjunct2, THEN conjunct2, THEN conjunct1, THEN mp, OF 3]
  have d: "py_strip (dict_get Map.empty ''text'' []) @ [CHR 0x0A] = [CHR 0x0A]" .
  from g c d show ?thesis by (intro conjI)
qed

subsection \<open>The exit code of the script\<close>

lemma main_exit:
  "ending (main e) = Exit n \<longleftrightarrow>
     n = 1 \<and>
     (length (argv e) < 2 \<or>
      \<not> cli_exists e (abspath e (argv e ! 1)) \<or>
      cli_which e ''ffmpeg'' \<noteq> None \<and> import_whisper e \<noteq> None)"
  by (auto simp: main_def Let_def cli_ensure_ffmpeg_def split: option.splits sum.splits)

lemma main_no_ffmpeg:
  "2 \<le> length (argv e) \<Longrightarrow> cli_exists e (abspath e (argv e ! 1)) \<Longrightarrow>
   cli_which e ''ffmpeg'' = None \<Longrightarrow>
   ending (main e) = Uncaught ''FFmpeg not found. Install it and make sure 'ffmpeg' is on your PATH.''"
  by (simp add: main_def Let_def cli_ensure_ffmpeg_def)

lemma main_transcribe_fails:
  "2 \<le> length (argv e) \<Longrightarrow> cli_exists e (abspath e (argv e ! 1)) \<Longrightarrow>
   cli_which e ''ffmpeg'' \<noteq> None \<Longrightarrow> import_whisper e = None \<Longrightarrow>
   cli_load_model e (case cli_environ e ''WHISPER_MODEL'' of None \<Rightarrow> ''base'' | Some v \<Rightarrow> v) = Inr h \<Longrightarrow>
   cli_makedirs e (pick_output_dir e (dirname (abspath e (argv e ! 1)))) = None \<Longrightarrow>
   cli_transcribe e h (abspath e (argv e ! 1)) = Inl x \<Longrightarrow>
   ending (main e) = Uncaught x \<and> files (main e) = []"
  by (auto simp: main_def Let_def cli_ensure_ffmpeg_def split: option.splits sum.splits)

text \<open>
  C7, as stated: the script exits with code 1 exactly when the required argument is
  missing or the input file does not exist. With the argument given, the file present
  and FFmpeg found, a machine on which \<^verbatim>\<open>import whisper\<close> fails makes the script print
  its hint and call \<^verbatim>\<open>sys.exit(1)\<close> as well.
\<close>

theorem cli_exit_without_whisper_counterexample:
  "ending (main cli_without_whisper) = Exit 1 \<and>
   \<not> length (argv cli_without_whisper) < 2 \<and>
   cli_exists cli_without_whisper (abspath cli_without_whisper (argv cli_without_whisper ! 1)) \<and>
   \<not> (ending (main cli_without_whisper) = Exit 1 \<longleftrightarrow>
        length (argv cli_without_whisper) < 2 \<or>
        \<not> cli_exists cli_without_whisper
             (abspath cli_without_whisper (argv cli_without_whisper ! 1)))"
  by code_simp

text \<open>
  C7, amended: the script calls \<^verbatim>\<open>sys.exit(1)\<close> exactly when the required argument is
  missing, the input file does not exist, or, FFmpeg being found, the speech library
  fails to import; it calls \<^verbatim>\<open>sys.exit\<close> with no other code. A transcription that fails
  in mid-run is not turned into an exit code: the exception leaves \<^verbatim>\<open>main\<close> uncaught,
  with no file written.
\<close>

theorem cli_exit_code_one:
  "(ending (main e) = Exit 1 \<longleftrightarrow>
      length (argv e) < 2 \<or>
      \<not> cli_exists e (abspath e (argv e ! 1)) \<or>
      cli_which e ''ffmpeg'' \<noteq> None \<and> import_whisper e \<noteq> None) \<and>
   (ending (main e) = Exit n \<longrightarrow> n = 1) \<and>
   (2 \<le> length (argv e) \<and> cli_exists e (abspath e (argv e ! 1)) \<and>
    cli_which e ''ffmpeg'' \<noteq> None \<and> import_whisper e = None \<and>
    cli_load_model e (case cli_environ e ''WHISPER_MODEL'' of
                        None \<Rightarrow> ''base'' | Some v \<Rightarrow> v) = Inr h \<and>
    cli_makedirs e (pick_output_dir e (dirname (abspath e (argv e ! 1)))) = None \<and>
    cli_transcribe e h (abspath e (argv e ! 1)) = Inl x \<longrightarrow>
      ending (main e) = Uncaught x \<and> files (main e) = [])"
proof (intro conjI impI)
  show "ending (main e) = Exit 1 \<longleftrightarrow>
      length (argv e) < 2 \<or>
      \<not> cli_exists e (abspath e (argv e ! 1)) \<or>
      cli_which e ''ffmpeg'' \<noteq> None \<and> import_whisper e \<noteq> None"
    using main_exit [of e 1] by simp
next
  assume "ending (main e) = Exit n"
  then show "n = 1" using main_exit [of e n] by simp
next
  assume a: "2 \<le> length (argv e) \<and> cli_exists e (abspath e (argv e ! 1)) \<and>
    cli_which e ''ffmpeg'' \<noteq> None \<and> import_whisper e = None \<and>
    cli_load_model e (case cli_environ e ''WHISPER_MODEL'' of
                        None \<Rightarrow> ''base'' | Some v \<Rightarrow> v) = Inr h \<and>
    cli_makedirs e (pick_output_dir e (dirname (abspath e (argv e ! 1)))) = None \<and>
    cli_transcribe e h (abspath e (argv e ! 1)) = Inl x"
  then have "ending (main e) = Uncaught x \<and> files (main e) = []"
    using main_transcribe_fails [of e h x] by simp
  then show "ending (main e) = Uncaught x" and "files (main e) = []" by simp_all
qed

theorem cli_exit_code_one_witness:
  "ending (main (cli_ready\<lparr>argv := [''transcribe.py'']\<rparr>)) = Exit 1 \<and>
   ending (main (cli_ready\<lparr>cli_exists := (\<lambda>p. False)\<rparr>)) = Exit 1 \<and>
   ending (main cli_without_whisper) = Exit 1 \<and>
   ending (main (cli_ready\<lparr>cli_transcribe := (\<lambda>h p. Inl ''out of memory'')\<rparr>)) =
     Uncaught ''out of memory''"
proof -
  let ?e1 = "cli_ready\<lparr>argv := [''transcribe.py'']\<rparr>"
  let ?e2 = "cli_ready\<lparr>cli_exists := (\<lambda>p. False)\<rparr>"
  let ?e4 = "cli_ready\<lparr>cli_transcribe := (\<lambda>h p. Inl ''out of memory'')\<rparr>"
  have 1: "length (argv ?e1) < 2" by code_simp
  have 2: "\<not> cli_exists ?e2 (abspath ?e2 (argv ?e2 ! 1))" by code_simp
  have 3: "cli_which cli_without_whisper ''ffmpeg'' \<noteq> None \<and>
           import_whisper cli_without_whisper \<noteq> None" by code_simp
  have 4: "2 \<le> length (argv ?e4) \<and> cli_exists ?e4 (abspath ?e4 (argv ?e4 ! 1)) \<and>
    cli_which ?e4 ''ffmpeg'' \<noteq> None \<and> import_whisper ?e4 = None \<and>
    cli_load_model ?e4 (case cli_environ ?e4 ''WHISPER_MODEL'' of
                        None \<Rightarrow> ''base'' | Some v \<Rightarrow> v) = Inr 1 \<and>
    cli_makedirs ?e4 (pick_output_dir ?e4 (dirname (abspath ?e4 (argv ?e4 ! 1)))) = None \<and>
    cli_transcribe ?e4 1 (abspath ?e4 (argv ?e4 ! 1)) = Inl ''out of memory''"
    by (simp add: cli_ready_def)
  from cli_exit_code_one [of ?e1, THEN conjunct1] 1
  have a: "ending (main ?e1) = Exit 1" by (simp only: simp_thms)
  from cli_exit_code_one [of ?e2, THEN conjunct1] 2
  have b: "ending (main ?e2) = Exit 1" by (simp only: simp_thms)
  from cli_exit_code_one [of cli_without_whisper, THEN conjunct1] 3
  have c: "ending (main cli_without_whisper) = Exit 1" by (simp only: simp_thms)
  from cli_exit_code_one [of ?e4 _ 1 "''out of memory''", THEN conjunct2, THEN conjunct2,
      THEN mp, OF 4]
  have d: "ending (main ?e4) = Uncaught ''out of memory''" by (rule conjunct1)
  from a b c d show ?thesis by (intro conjI)
qed

end
